theory Spec2Isabelle
  imports Complex_Main
begin

section \<open>Python values and exceptions\<close>

text \<open>
  The exceptions the three modules can raise, by class. A \<open>ValueError\<close> and a
  \<open>FileNotFoundError\<close> carry their message; \<open>IndexError\<close> is what numpy raises for an
  index outside an axis, \<open>OverflowError\<close> what \<open>int()\<close> raises on an infinity.
  A raise is the left injection of a sum, a normal return the right one.
\<close>

datatype py_error =
    ValueError string
  | IndexError
  | OverflowError
  | FileNotFoundError string

text \<open>
  Pixel coordinates are numpy floating-point numbers. Their type and its arithmetic
  belong to numpy, not to the repository, so they are a parameter of the model: a type
  \<open>'f\<close> of numbers with the operations the code applies to them. \<open>np_lit\<close> is a
  Python int taken into an operation with such a number, \<open>np_int\<close> is \<open>int(x)\<close>,
  which truncates toward zero and raises on an infinity or a NaN.
\<close>

record 'f np_float =
  np_add :: "'f \<Rightarrow> 'f \<Rightarrow> 'f"
  np_sub :: "'f \<Rightarrow> 'f \<Rightarrow> 'f"
  np_div :: "'f \<Rightarrow> 'f \<Rightarrow> 'f"
  np_lit :: "int \<Rightarrow> 'f"
  np_int :: "'f \<Rightarrow> py_error + int"

subsection \<open>float32\<close>

text \<open>
  The numbers of the detector are float32, and with numpy 2 every operation of the code
  stays in float32: IEEE binary32, 24 significant bits, exponents from \<open>-126\<close> to 127,
  rounding to nearest with ties to even, overflow to an infinity. The sign of a zero is
  left out: it could only change the sign of an infinity, and \<open>int()\<close> raises the same
  error on both.
\<close>

datatype f32 = Finite real | PosInf | NegInf | NaN

fun ilog2 :: "nat \<Rightarrow> real \<Rightarrow> int" where
  \<comment> \<open>the binary exponent of a positive number, by at most \<open>n\<close> doublings or halvings\<close>
  "ilog2 0 x = 0"
| "ilog2 (Suc n) x =
     (if x < 1 then ilog2 n (2 * x) - 1
      else if 2 \<le> x then ilog2 n (x / 2) + 1
      else 0)"

definition round_half_even :: "real \<Rightarrow> int" where
  "round_half_even y =
     (let f = \<lfloor>y\<rfloor> in
      if y - of_int f < 1 / 2 then f
      else if 1 / 2 < y - of_int f then f + 1
      else if even f then f else f + 1)"

definition round32 :: "real \<Rightarrow> f32" where
  \<comment> \<open>the float32 nearest to an exact result; the unit in the last place is \<open>2 powi e\<close>\<close>
  "round32 x =
     (if x = 0 then Finite 0
      else
        let e = max (ilog2 300 \<bar>x\<bar> - 23) (- 149);
            y = of_int (round_half_even (x / 2 powi e)) * 2 powi e
        in if 2 ^ 128 \<le> \<bar>y\<bar> then (if 0 < x then PosInf else NegInf) else Finite y)"

fun f32_add :: "f32 \<Rightarrow> f32 \<Rightarrow> f32" where
  "f32_add (Finite x) (Finite y) = round32 (x + y)"
| "f32_add NaN b = NaN"
| "f32_add a NaN = NaN"
| "f32_add PosInf NegInf = NaN"
| "f32_add NegInf PosInf = NaN"
| "f32_add PosInf b = PosInf"
| "f32_add a PosInf = PosInf"
| "f32_add NegInf b = NegInf"
| "f32_add a NegInf = NegInf"

fun f32_neg :: "f32 \<Rightarrow> f32" where
  "f32_neg (Finite x) = Finite (- x)"
| "f32_neg PosInf = NegInf"
| "f32_neg NegInf = PosInf"
| "f32_neg NaN = NaN"

definition f32_sub :: "f32 \<Rightarrow> f32 \<Rightarrow> f32" where
  "f32_sub a b = f32_add a (f32_neg b)"

fun f32_div :: "f32 \<Rightarrow> f32 \<Rightarrow> f32" where
  "f32_div (Finite x) (Finite y) =
     (if y = 0 then (if x = 0 then NaN else if 0 < x then PosInf else NegInf)
      else round32 (x / y))"
| "f32_div NaN b = NaN"
| "f32_div a NaN = NaN"
| "f32_div (Finite x) b = Finite 0"
| "f32_div PosInf (Finite y) = (if y < 0 then NegInf else PosInf)"
| "f32_div NegInf (Finite y) = (if y < 0 then PosInf else NegInf)"
| "f32_div a b = NaN"

definition py_int :: "real \<Rightarrow> int" where
  \<comment> \<open>\<open>int(x)\<close> of a finite float: truncation toward zero\<close>
  "py_int x = (if 0 \<le> x then \<lfloor>x\<rfloor> else \<lceil>x\<rceil>)"

fun f32_int :: "f32 \<Rightarrow> py_error + int" where
  "f32_int (Finite x) = Inr (py_int x)"
| "f32_int NaN = Inl (ValueError ''cannot convert float NaN to integer'')"
| "f32_int a = Inl OverflowError"

definition float32 :: "f32 np_float" where
  "float32 =
     \<lparr>np_add = f32_add, np_sub = f32_sub, np_div = f32_div,
      np_lit = (\<lambda>n. round32 (of_int n)), np_int = f32_int\<rparr>"

section \<open>Strings\<close>

fun str_nat :: "nat \<Rightarrow> string" where
  \<comment> \<open>\<open>str(n)\<close> of a non-negative int: its decimal digits\<close>
  "str_nat n =
     (if n < 10 then [''0123456789'' ! n]
      else str_nat (n div 10) @ [''0123456789'' ! (n mod 10)])"

declare str_nat.simps [simp del]

fun join :: "string \<Rightarrow> string list \<Rightarrow> string" where
  \<comment> \<open>\<open>sep.join(xs)\<close>\<close>
  "join sep [] = []"
| "join sep [x] = x"
| "join sep (x # y # ys) = x @ sep @ join sep (y # ys)"

section \<open>image_to_fen: detections to a FEN string\<close>

text \<open>
  One detection is a row of \<open>boxes.xyxy\<close> and its class label:
  \<open>((x_min, y_min, x_max, y_max), label)\<close>. The chessboard is kept as
  \<open>(x, y, width, height)\<close>, a piece as \<open>(x_center, y_center, label)\<close>.
\<close>

type_synonym 'f box = "'f \<times> 'f \<times> 'f \<times> 'f"
type_synonym 'f detection = "'f box \<times> string"
type_synonym 'f chessboard = "'f \<times> 'f \<times> 'f \<times> 'f"
type_synonym 'f piece = "'f \<times> 'f \<times> string"

definition fen_mapping :: "string \<rightharpoonup> string" where
  "fen_mapping =
     [''Black_Pawn'' \<mapsto> ''p'', ''Black_Rook'' \<mapsto> ''r'', ''Black_Knight'' \<mapsto> ''n'',
      ''Black_Bishop'' \<mapsto> ''b'', ''Black_Queen'' \<mapsto> ''q'', ''Black_King'' \<mapsto> ''k'',
      ''White_Pawn'' \<mapsto> ''P'', ''White_Rook'' \<mapsto> ''R'', ''White_Knight'' \<mapsto> ''N'',
      ''White_Bishop'' \<mapsto> ''B'', ''White_Queen'' \<mapsto> ''Q'', ''White_King'' \<mapsto> ''K'']"

text \<open>
  The first loop: a detection labelled \<open>Chess_Board\<close> overwrites \<open>chessboard\<close>, any
  other one is appended to \<open>pieces\<close> with its centre.
\<close>

fun extract_step ::
  "'f np_float \<Rightarrow> 'f chessboard option \<times> 'f piece list \<Rightarrow> 'f detection
     \<Rightarrow> 'f chessboard option \<times> 'f piece list" where
  "extract_step np (chessboard, pieces) ((x_min, y_min, x_max, y_max), label) =
     (if label = ''Chess_Board'' then
        (Some (x_min, y_min, np_sub np x_max x_min, np_sub np y_max y_min), pieces)
      else
        (chessboard,
         pieces @ [(np_div np (np_add np x_min x_max) (np_lit np 2),
                    np_div np (np_add np y_min y_max) (np_lit np 2), label)]))"

definition extract_detections ::
  "'f np_float \<Rightarrow> 'f detection list \<Rightarrow> 'f chessboard option \<times> 'f piece list" where
  "extract_detections np results = foldl (extract_step np) (None, []) results"

text \<open>
  The board is \<open>np.full((9, 9), "")\<close>: cells indexed by \<open>(row, col)\<close> with both in
  \<open>0..8\<close>. Assignment \<open>board[r, c] = v\<close> with Python ints follows numpy: an index from
  \<open>-9\<close> to \<open>-1\<close> counts from the end, an index outside \<open>-9..8\<close> raises \<open>IndexError\<close>.
\<close>

type_synonym board = "int \<times> int \<Rightarrow> string"

definition np_full :: board where
  "np_full = (\<lambda>_. '''')"

definition np_index :: "int \<Rightarrow> py_error + int" where
  "np_index i =
     (if i < - 9 \<or> 9 \<le> i then Inl IndexError
      else Inr (if i < 0 then i + 9 else i))"

definition np_setitem :: "board \<Rightarrow> int \<times> int \<Rightarrow> string \<Rightarrow> py_error + board" where
  "np_setitem board rc v =
     (case np_index (fst rc) of
        Inl e \<Rightarrow> Inl e
      | Inr r \<Rightarrow>
          (case np_index (snd rc) of
             Inl e \<Rightarrow> Inl e
           | Inr c \<Rightarrow> Inr (board((r, c) := v))))"

text \<open>
  The second loop, one piece: both indices are computed first (and may raise), then the
  label is looked up; an unknown label leaves the board alone.
\<close>

definition row_index :: "'f np_float \<Rightarrow> 'f \<Rightarrow> 'f \<Rightarrow> 'f \<Rightarrow> py_error + int" where
  "row_index np y_c y_b h_s =
     (case np_int np (np_div np (np_sub np y_c y_b) h_s) of
        Inl e \<Rightarrow> Inl e
      | Inr q \<Rightarrow> Inr (8 - q))"

definition col_index :: "'f np_float \<Rightarrow> 'f \<Rightarrow> 'f \<Rightarrow> 'f \<Rightarrow> py_error + int" where
  "col_index np x_c x_b w_s =
     (case np_int np (np_div np (np_sub np x_c x_b) w_s) of
        Inl e \<Rightarrow> Inl e
      | Inr q \<Rightarrow> Inr (q + 1))"

definition assign_piece :: "board \<Rightarrow> int \<Rightarrow> int \<Rightarrow> string \<Rightarrow> py_error + board" where
  \<comment> \<open>\<open>if piece in fen_mapping: board[row_index, col_index] = fen_mapping[piece]\<close>\<close>
  "assign_piece board r c piece =
     (case fen_mapping piece of
        None \<Rightarrow> Inr board
      | Some s \<Rightarrow> np_setitem board (r, c) s)"

fun place_piece ::
  "'f np_float \<Rightarrow> 'f \<times> 'f \<times> 'f \<times> 'f \<Rightarrow> board \<Rightarrow> 'f piece \<Rightarrow> py_error + board" where
  "place_piece np (x_b, y_b, w_s, h_s) board (x_c, y_c, piece) =
     (case row_index np y_c y_b h_s of
        Inl e \<Rightarrow> Inl e
      | Inr r \<Rightarrow>
          (case col_index np x_c x_b w_s of
             Inl e \<Rightarrow> Inl e
           | Inr c \<Rightarrow> assign_piece board r c piece))"

fun place_pieces ::
  "'f np_float \<Rightarrow> 'f \<times> 'f \<times> 'f \<times> 'f \<Rightarrow> board \<Rightarrow> 'f piece list \<Rightarrow> py_error + board" where
  "place_pieces np fr board [] = Inr board"
| "place_pieces np fr board (p # ps) =
     (case place_piece np fr board p of
        Inl e \<Rightarrow> Inl e
      | Inr board' \<Rightarrow> place_pieces np fr board' ps)"

text \<open>
  The third loop. The inner loop over the columns carries \<open>(empty_count, fen_row)\<close>;
  the trailing count is flushed after it.
\<close>

fun fen_cell :: "nat \<times> string \<Rightarrow> string \<Rightarrow> nat \<times> string" where
  "fen_cell (empty_count, fen_row) cell =
     (if cell = '''' then (empty_count + 1, fen_row)
      else if 0 < empty_count then (0, (fen_row @ str_nat empty_count) @ cell)
      else (empty_count, fen_row @ cell))"

definition fen_flush :: "nat \<times> string \<Rightarrow> string" where
  "fen_flush st = (if 0 < fst st then snd st @ str_nat (fst st) else snd st)"

definition fen_row_cells :: "string list \<Rightarrow> string" where
  "fen_row_cells cells = fen_flush (foldl fen_cell (0, '''') cells)"

definition board_row :: "board \<Rightarrow> int \<Rightarrow> string list" where
  \<comment> \<open>\<open>board[row, col]\<close> for \<open>col\<close> in \<open>range(1, 9)\<close>\<close>
  "board_row board row = map (\<lambda>col. board (row, col)) [1..8]"

definition fen_rows :: "board \<Rightarrow> string list" where
  \<comment> \<open>\<open>row\<close> in \<open>range(8, 0, -1)\<close>\<close>
  "fen_rows board = map (\<lambda>row. fen_row_cells (board_row board row)) (rev [1..8])"

definition fen_of_board :: "board \<Rightarrow> string \<Rightarrow> string" where
  "fen_of_board board active_color =
     join ''/'' (fen_rows board) @ ('' '' @ active_color @ '' - - 0 1'')"

text \<open>
  From the chessboard on: square sizes, a fresh board, the pieces, the string.
\<close>

fun fen_from_detections ::
  "'f np_float \<Rightarrow> 'f chessboard \<Rightarrow> 'f piece list \<Rightarrow> string \<Rightarrow> py_error + string" where
  "fen_from_detections np (x_b, y_b, w_b, h_b) pieces active_color =
     (let h_s = np_div np h_b (np_lit np 8); w_s = np_div np w_b (np_lit np 8) in
      case place_pieces np (x_b, y_b, w_s, h_s) np_full pieces of
        Inl e \<Rightarrow> Inl e
      | Inr board \<Rightarrow> Inr (fen_of_board board active_color))"

definition image_to_fen ::
  "'f np_float \<Rightarrow> 'f detection list \<Rightarrow> string \<Rightarrow> py_error + string" where
  "image_to_fen np results active_color =
     (case extract_detections np results of
        (None, pieces) \<Rightarrow>
          Inl (ValueError ''Chessboard not detected in the image. Cannot generate FEN.'')
      | (Some chessboard, pieces) \<Rightarrow> fen_from_detections np chessboard pieces active_color)"

section \<open>get_best_move: the engine adapter\<close>

text \<open>
  The \<open>stockfish\<close> package is external. What \<open>get_best_move\<close> uses of it is a
  parameter: the text of the exception when the engine process does not start
  (\<open>None\<close> when it starts), its FEN validator, and the move
  \<open>get_best_move_time(2000)\<close> returns for a position (\<open>None\<close> when there is none).
\<close>

record stockfish =
  init_error :: "string option"
  is_fen_valid :: "string \<Rightarrow> bool"
  get_best_move_time :: "string \<Rightarrow> string option"

definition get_best_move :: "stockfish \<Rightarrow> string \<Rightarrow> string \<Rightarrow> py_error + string option" where
  "get_best_move sf fen_string stockfish_path =
     (case init_error sf of
        Some e \<Rightarrow>
          Inl (FileNotFoundError
                 (''Stockfish engine not found or failed to initialize at '' @ [CHR 0x27]
                  @ stockfish_path @ [CHR 0x27]
                  @ ''. Please ensure the path is correct. Error: '' @ e))
      | None \<Rightarrow>
          if \<not> is_fen_valid sf fen_string then
            Inl (ValueError (''Invalid FEN string provided to Stockfish: '' @ fen_string))
          else Inr (get_best_move_time sf fen_string))"

section \<open>RobotController: moves to waypoints\<close>

text \<open>
  The CSV file is data outside the code; the loaded frame is a list of rows with the
  four columns the code reads. \<open>Col\<close> holds the file letter, \<open>Row\<close> the rank number.
\<close>

record csv_row =
  Col :: string
  Row :: int
  Pick :: string
  Place :: string

definition HOME_COORDINATE :: string where
  "HOME_COORDINATE = ''[0.45; 0; 0.49]''"

definition RobotController :: "string \<Rightarrow> csv_row list option \<Rightarrow> py_error + csv_row list" where
  \<comment> \<open>\<open>__init__\<close>: \<open>None\<close> stands for a mapping file found at neither path,
      \<open>csv_path\<close> is the second path, beside the module\<close>
  "RobotController csv_path csv =
     (case csv of
        None \<Rightarrow>
          Inl (FileNotFoundError
                 (''Robot coordinate mapping file not found at '' @ [CHR 0x27] @ csv_path
                  @ [CHR 0x27] @ ''. Please ensure the path is correct.''))
      | Some df \<Rightarrow> Inr df)"

text \<open>
  Strings are byte strings here, which covers the ASCII moves of the engine: of the
  one-character strings, \<open>int()\<close> accepts the ten decimal digits and raises
  \<open>ValueError\<close> on every other.
\<close>

definition int_of_char :: "char \<Rightarrow> py_error + int" where
  \<comment> \<open>\<open>int(s)\<close> of a one-character string\<close>
  "int_of_char ch =
     (if ch \<in> set ''0123456789'' then Inr (int (of_char ch) - 48)
      else Inl (ValueError (''invalid literal for int() with base 10: '' @ [CHR 0x27, ch, CHR 0x27])))"

definition loc_rows :: "csv_row list \<Rightarrow> string \<Rightarrow> int \<Rightarrow> csv_row list" where
  \<comment> \<open>\<open>df.loc[(df['Col'] == col) & (df['Row'] == row)]\<close>\<close>
  "loc_rows df col row = filter (\<lambda>r. Col r = col \<and> Row r = row) df"

text \<open>
  With a frame that has the four columns and a move of four characters or more, the
  \<open>KeyError\<close> and \<open>IndexError\<close> the \<open>try\<close> block converts cannot arise; the
  \<open>ValueError\<close> of \<open>int()\<close> and of the two emptiness checks pass through it.
\<close>

definition get_move_coordinates :: "csv_row list \<Rightarrow> string \<Rightarrow> py_error + string \<times> string" where
  "get_move_coordinates df move =
     (if length move < 4 then
        Inl (ValueError (''Invalid move format '' @ [CHR 0x27] @ move @ [CHR 0x27]
               @ ''. Expected format like 'e2e4'.''))
      else
        (let move_from = take 2 move; move_to = take 2 (drop 2 move);
             from_col = [move_from ! 0]
         in
         (case int_of_char (move_from ! 1) of
            Inl e \<Rightarrow> Inl e
          | Inr from_row \<Rightarrow>
              (let pick_coords_series = map Pick (loc_rows df from_col from_row) in
               if pick_coords_series = [] then
                 Inl (ValueError (''Start square '' @ [CHR 0x27] @ move_from @ [CHR 0x27]
                        @ '' not found in mapping file.''))
               else
                 (let pick_coords = hd pick_coords_series;
                      to_col = [move_to ! 0]
                  in
                  (case int_of_char (move_to ! 1) of
                     Inl e \<Rightarrow> Inl e
                   | Inr to_row \<Rightarrow>
                       (let place_coords_series = map Place (loc_rows df to_col to_row) in
                        if place_coords_series = [] then
                          Inl (ValueError (''End square '' @ [CHR 0x27] @ move_to @ [CHR 0x27]
                                 @ '' not found in mapping file.''))
                        else
                          (let place_coords = hd place_coords_series in
                           Inr (pick_coords, place_coords)))))))))"

text \<open>
  What the orchestrator and the robot controller print or call, in order. Each event
  stands for one \<open>print\<close> (or group of prints) or one call of a collaborator.
\<close>

datatype event =
    ModelNotFound
  | CaptureFailed
  | GeneratedFEN string
  | FenGenerationError py_error
  | UnexpectedImageError py_error
  | MissingKings string
  | EngineQueried string
  | BestMoveFound string
  | NoMoveReturned
  | StockfishError py_error
  | UnexpectedStockfishError py_error
  | RobotFinalCommand string "string list"
  | ErrorInRobotControl py_error
  | RobotStepError py_error
  | UnexpectedRobotError py_error
  | TurnCompleted

definition value_or_file_error :: "py_error \<Rightarrow> bool" where
  \<comment> \<open>what \<open>except (ValueError, FileNotFoundError)\<close> catches\<close>
  "value_or_file_error e =
     (case e of ValueError _ \<Rightarrow> True | FileNotFoundError _ \<Rightarrow> True | _ \<Rightarrow> False)"

definition execute_robot_move :: "csv_row list \<Rightarrow> string \<Rightarrow> py_error + event list" where
  "execute_robot_move df move =
     (case get_move_coordinates df move of
        Inr (pick_coords, place_coords) \<Rightarrow>
          Inr [RobotFinalCommand move
                 [pick_coords, pick_coords, HOME_COORDINATE,
                  place_coords, place_coords, HOME_COORDINATE]]
      | Inl e \<Rightarrow>
          if value_or_file_error e then Inr [ErrorInRobotControl e] else Inl e)"

section \<open>main: one pipeline pass\<close>

text \<open>
  The surroundings of one pass: whether the model file exists, whether the camera gave
  a frame, what the detector returns for it, the engine, and the mapping file with its
  path.
  The \<open>while True\<close> loop leaves through a \<open>break\<close> on every path, so one pass is
  all of \<open>main\<close>. Each step has a handler for \<open>ValueError\<close> (and
  \<open>FileNotFoundError\<close>) and one for any other exception; both end the pass.
\<close>

record 'f world =
  model_exists :: bool
  frame_captured :: bool
  detections :: "'f detection list"
  engine :: stockfish
  mapping_path :: string
  mapping_file :: "csv_row list option"

definition stockfish_path :: string where
  "stockfish_path =
     ''Stockfish engine/stockfish-windows-x86-64-avx2/stockfish/stockfish-windows-x86-64-avx2.exe''"

definition robot_step :: "'f world \<Rightarrow> string \<Rightarrow> event list" where
  \<comment> \<open>step 5 and 6, with the final success message\<close>
  "robot_step w best_move =
     (case (case RobotController (mapping_path w) (mapping_file w) of
              Inl e \<Rightarrow> Inl e
            | Inr robot \<Rightarrow> execute_robot_move robot best_move) of
        Inl e \<Rightarrow>
          [if value_or_file_error e then RobotStepError e else UnexpectedRobotError e]
      | Inr printed \<Rightarrow> printed @ [TurnCompleted])"

definition engine_step :: "'f world \<Rightarrow> string \<Rightarrow> event list" where
  \<comment> \<open>step 4, after the check for the kings\<close>
  "engine_step w fen_string =
     EngineQueried fen_string #
     (case get_best_move (engine w) fen_string stockfish_path of
        Inl e \<Rightarrow>
          [if value_or_file_error e then StockfishError e else UnexpectedStockfishError e]
      | Inr None \<Rightarrow> [NoMoveReturned]
      | Inr (Some best_move) \<Rightarrow>
          if best_move = '''' then [NoMoveReturned]
          else BestMoveFound best_move # robot_step w best_move)"

definition main :: "'f np_float \<Rightarrow> 'f world \<Rightarrow> event list" where
  "main np w =
     (if \<not> model_exists w then [ModelNotFound]
      else if \<not> frame_captured w then [CaptureFailed]
      else
        case image_to_fen np (detections w) ''w'' of
          Inl e \<Rightarrow>
            (case e of
               ValueError _ \<Rightarrow> [FenGenerationError e]
             | _ \<Rightarrow> [UnexpectedImageError e])
        | Inr fen_string \<Rightarrow>
            GeneratedFEN fen_string #
            (if CHR ''k'' \<notin> set fen_string \<or> CHR ''K'' \<notin> set fen_string then
               [MissingKings fen_string]
             else engine_step w fen_string))"

section \<open>The first variant of image_to_fen\<close>

text \<open>
  The older file \<open>Computer Vision files/image_to_fen.py\<close> has the same three loops. It
  differs in two places: it unpacks \<open>chessboard\<close> without a test, which is a
  \<open>TypeError\<close> when no board was detected, and its trailer is always \<open> b - - 0 1\<close>.
\<close>

datatype bare_error = TypeError | Raised py_error

definition image_to_fen_bare :: "'f np_float \<Rightarrow> 'f detection list \<Rightarrow> bare_error + string" where
  "image_to_fen_bare np results =
     (case extract_detections np results of
        (None, pieces) \<Rightarrow> Inl TypeError
      | (Some chessboard, pieces) \<Rightarrow>
          (case fen_from_detections np chessboard pieces ''b'' of
             Inl e \<Rightarrow> Inl (Raised e)
           | Inr fen_string \<Rightarrow> Inr fen_string))"

section \<open>The specification's side\<close>

text \<open>
  The serializer as the specification words it: within a rank, count the consecutive
  empty cells; at a non-empty cell write the count as a digit if it is positive, then the
  symbol; at the end of the rank write a positive count. Ranks go from 8 down to 1, files
  from 1 to 8, the rank strings are joined with a slash, and a space, the active colour
  and the fixed trailer follow.
\<close>

definition run_digit :: "nat \<Rightarrow> string" where
  "run_digit n = (if 0 < n then [''0123456789'' ! n] else [])"

fun rank_rle :: "nat \<Rightarrow> string list \<Rightarrow> string" where
  "rank_rle n [] = run_digit n"
| "rank_rle n (cell # cells) =
     (if cell = [] then rank_rle (Suc n) cells
      else run_digit n @ cell @ rank_rle 0 cells)"

definition serializer_spec :: "board \<Rightarrow> string \<Rightarrow> string" where
  "serializer_spec grid active_color =
     join ''/''
       (map (\<lambda>rank. rank_rle 0 (map (\<lambda>file. grid (rank, file)) [1, 2, 3, 4, 5, 6, 7, 8]))
          [8, 7, 6, 5, 4, 3, 2, 1])
     @ '' '' @ active_color @ '' - - 0 1''"

text \<open>The standard starting arrangement as a grid.\<close>

definition starting_board :: board where
  "starting_board = (\<lambda>(rank, file).
     if file < 1 \<or> 8 < file then ''''
     else if rank = 8 then [''rnbqkbnr'' ! nat (file - 1)]
     else if rank = 7 then ''p''
     else if rank = 2 then ''P''
     else if rank = 1 then [''RNBQKBNR'' ! nat (file - 1)]
     else '''')"

text \<open>
  A row of the coordinate table is for the square written with a file letter and a rank
  digit when its \<open>Col\<close> is the letter and its \<open>Row\<close> the digit's value. A square is
  present in the table when \<open>find\<close> returns such a row, the first one.
\<close>

definition on_square :: "char \<Rightarrow> char \<Rightarrow> csv_row \<Rightarrow> bool" where
  "on_square file_letter rank_digit r =
     (Col r = [file_letter] \<and> int_of_char rank_digit = Inr (Row r))"


section \<open>The mapper and the serializer as a program on its variables\<close>

text \<open>
  Lines 57 to 92 of \<open>image_to_fen\<close> once more, now as the imperative program it is:
  the variables the loops read and write are fields of a record, each statement is an
  update of it, and a run starts from whatever values the variables hold, for instance
  those an earlier run has left. The square sizes and the loop variables are assigned
  right before their only uses and are not kept.
\<close>

record locals =
  board_var :: board
  fen_rows_var :: "string list"
  empty_count_var :: nat
  fen_row_var :: string

fun place_loop ::
  "'f np_float \<Rightarrow> 'f \<times> 'f \<times> 'f \<times> 'f \<Rightarrow> 'f piece list \<Rightarrow> locals
     \<Rightarrow> py_error option \<times> locals" where
  \<comment> \<open>\<open>for x_c, y_c, piece in pieces: ...\<close>; an exception leaves the loop\<close>
  "place_loop np fr [] s = (None, s)"
| "place_loop np fr (p # ps) s =
     (case place_piece np fr (board_var s) p of
        Inl e \<Rightarrow> (Some e, s)
      | Inr board' \<Rightarrow> place_loop np fr ps (s\<lparr>board_var := board'\<rparr>))"

definition col_body :: "int \<Rightarrow> locals \<Rightarrow> int \<Rightarrow> locals" where
  \<comment> \<open>the body of \<open>for col in range(1, 9)\<close>\<close>
  "col_body row s col =
     (let cell = board_var s (row, col) in
      if cell = '''' then s\<lparr>empty_count_var := empty_count_var s + 1\<rparr>
      else
        (let s' = (if 0 < empty_count_var s then
                     s\<lparr>fen_row_var := fen_row_var s @ str_nat (empty_count_var s),
                       empty_count_var := 0\<rparr>
                   else s)
         in s'\<lparr>fen_row_var := fen_row_var s' @ cell\<rparr>))"

definition row_body :: "locals \<Rightarrow> int \<Rightarrow> locals" where
  \<comment> \<open>the body of \<open>for row in range(8, 0, -1)\<close>\<close>
  "row_body s row =
     (let s1 = s\<lparr>empty_count_var := 0, fen_row_var := ''''\<rparr>;
          s2 = foldl (col_body row) s1 [1..8];
          s3 = (if 0 < empty_count_var s2 then
                  s2\<lparr>fen_row_var := fen_row_var s2 @ str_nat (empty_count_var s2)\<rparr>
                else s2)
      in s3\<lparr>fen_rows_var := fen_rows_var s3 @ [fen_row_var s3]\<rparr>)"

fun run_fen ::
  "'f np_float \<Rightarrow> 'f chessboard \<Rightarrow> 'f piece list \<Rightarrow> string \<Rightarrow> locals
     \<Rightarrow> (py_error + string) \<times> locals" where
  "run_fen np (x_b, y_b, w_b, h_b) pieces active_color s =
     (let h_s = np_div np h_b (np_lit np 8);
          w_s = np_div np w_b (np_lit np 8);
          s1 = s\<lparr>board_var := np_full\<rparr>
      in case place_loop np (x_b, y_b, w_s, h_s) pieces s1 of
           (Some e, s2) \<Rightarrow> (Inl e, s2)
         | (None, s2) \<Rightarrow>
             (let s3 = s2\<lparr>fen_rows_var := []\<rparr>;
                  s4 = foldl row_body s3 (rev [1..8])
              in (Inr (join ''/'' (fen_rows_var s4) @ ('' '' @ active_color @ '' - - 0 1'')),
                  s4)))"

definition run_twice ::
  "'f np_float \<Rightarrow> 'f chessboard \<Rightarrow> 'f piece list \<Rightarrow> string \<Rightarrow> locals
     \<Rightarrow> (py_error + string) \<times> (py_error + string)" where
  \<comment> \<open>two runs in a row, the second on the variables as the first has left them\<close>
  "run_twice np chessboard pieces active_color s =
     (let (r1, s1) = run_fen np chessboard pieces active_color s;
          (r2, s2) = run_fen np chessboard pieces active_color s1
      in (r1, r2))"

section \<open>Concrete inputs\<close>

text \<open>Detections with float32 coordinates, a table with two rows, and worlds for \<open>main\<close>.\<close>

definition det32 :: "real \<Rightarrow> real \<Rightarrow> real \<Rightarrow> real \<Rightarrow> string \<Rightarrow> f32 detection" where
  "det32 x_min y_min x_max y_max label =
     ((Finite x_min, Finite y_min, Finite x_max, Finite y_max), label)"

definition two_kings :: "f32 detection list" where
  "two_kings =
     [det32 0 0 80 80 ''Chess_Board'',
      det32 40 0 50 10 ''Black_King'',
      det32 40 70 50 80 ''White_King'']"

definition engine_e1e2 :: stockfish where
  "engine_e1e2 =
     \<lparr>init_error = None, is_fen_valid = (\<lambda>_. True), get_best_move_time = (\<lambda>_. Some ''e1e2'')\<rparr>"

definition world_of :: "f32 detection list \<Rightarrow> csv_row list \<Rightarrow> f32 world" where
  "world_of results table =
     \<lparr>model_exists = True, frame_captured = True, detections = results,
      engine = engine_e1e2,
      mapping_path = ''robot_controller/Placement of pieces_csv.csv'',
      mapping_file = Some table\<rparr>"

definition table_e :: "csv_row list" where
  "table_e =
     [\<lparr>Col = ''e'', Row = 7, Pick = ''[0.30; 0.05; 0.10]'', Place = ''[0.30; 0.05; 0.12]''\<rparr>,
      \<lparr>Col = ''e'', Row = 8, Pick = ''[0.35; 0.05; 0.10]'', Place = ''[0.35; 0.05; 0.12]''\<rparr>]"

section \<open>Facts about the first loop\<close>

lemma extract_step_board:
  "snd d = ''Chess_Board'' \<Longrightarrow> \<exists>frame. extract_step np (cb, ps) d = (Some frame, ps)"
proof -
  obtain x_min y_min x_max y_max label where d: "d = ((x_min, y_min, x_max, y_max), label)"
    by (metis prod.collapse)
  assume "snd d = ''Chess_Board''"
  then show ?thesis by (simp add: d)
qed

lemma extract_step_piece:
  "snd d \<noteq> ''Chess_Board'' \<Longrightarrow> \<exists>p. snd (snd p) = snd d \<and> (\<forall>cb ps. extract_step np (cb, ps) d = (cb, ps @ [p]))"
proof -
  obtain x_min y_min x_max y_max label where d: "d = ((x_min, y_min, x_max, y_max), label)"
    by (metis prod.collapse)
  assume "snd d \<noteq> ''Chess_Board''"
  then have "\<forall>cb ps. extract_step np (cb, ps) d
               = (cb, ps @ [(np_div np (np_add np x_min x_max) (np_lit np 2),
                             np_div np (np_add np y_min y_max) (np_lit np 2), label)])"
    by (simp add: d)
  then show ?thesis using d
    by (intro exI [of _ "(np_div np (np_add np x_min x_max) (np_lit np 2),
                          np_div np (np_add np y_min y_max) (np_lit np 2), label)"]) simp
qed

lemma foldl_extract_no_board:
  "\<forall>d \<in> set ds. snd d \<noteq> ''Chess_Board'' \<Longrightarrow> fst (foldl (extract_step np) (cb, ps) ds) = cb"
proof (induction ds arbitrary: cb ps)
  case Nil
  then show ?case by simp
next
  case (Cons d ds)
  then obtain p where "extract_step np (cb, ps) d = (cb, ps @ [p])"
    using extract_step_piece [of d np] by auto
  then show ?case using Cons by simp
qed

text \<open>The piece list does not depend on the chessboard carried along.\<close>

lemma foldl_extract_pieces_indep:
  "snd (foldl (extract_step np) (cb, ps) ds) = snd (foldl (extract_step np) (cb', ps) ds)"
proof (induction ds arbitrary: cb cb' ps)
  case Nil
  then show ?case by simp
next
  case (Cons d ds)
  show ?case
  proof (cases "snd d = ''Chess_Board''")
    case True
    obtain f where f: "extract_step np (cb, ps) d = (Some f, ps)"
      using extract_step_board [OF True] by blast
    obtain f' where f': "extract_step np (cb', ps) d = (Some f', ps)"
      using extract_step_board [OF True] by blast
    show ?thesis using Cons.IH [of "Some f" ps "Some f'"] by (simp add: f f')
  next
    case False
    then obtain p where "\<forall>cb ps. extract_step np (cb, ps) d = (cb, ps @ [p])"
      using extract_step_piece [of d np] by auto
    then show ?thesis using Cons.IH [of cb "ps @ [p]" cb'] by simp
  qed
qed

text \<open>Board detections ahead of the list leave the piece list as it is.\<close>

lemma foldl_extract_pieces_filter:
  "snd (foldl (extract_step np) (cb, ps) ds)
     = snd (foldl (extract_step np) (cb, ps) (filter (\<lambda>d. snd d \<noteq> ''Chess_Board'') ds))"
proof (induction ds arbitrary: cb ps)
  case Nil
  then show ?case by simp
next
  case (Cons d ds)
  show ?case
  proof (cases "snd d = ''Chess_Board''")
    case True
    obtain f where f: "extract_step np (cb, ps) d = (Some f, ps)"
      using extract_step_board [OF True] by blast
    have "snd (foldl (extract_step np) (Some f, ps) ds) = snd (foldl (extract_step np) (cb, ps) ds)"
      by (rule foldl_extract_pieces_indep)
    then show ?thesis using True Cons.IH [of cb ps] by (simp add: f)
  next
    case False
    then obtain p where "\<forall>cb ps. extract_step np (cb, ps) d = (cb, ps @ [p])"
      using extract_step_piece [of d np] by auto
    then show ?thesis using False Cons.IH [of cb "ps @ [p]"] by simp
  qed
qed

lemma foldl_extract_labels:
  assumes "\<forall>p \<in> set ps. snd (snd p) \<noteq> ''Chess_Board''"
  shows "\<forall>p \<in> set (snd (foldl (extract_step np) (cb, ps) ds)). snd (snd p) \<noteq> ''Chess_Board''"
  using assms
proof (induction ds arbitrary: cb ps)
  case Nil
  then show ?case by simp
next
  case (Cons d ds)
  show ?case
  proof (cases "snd d = ''Chess_Board''")
    case True
    obtain f where f: "extract_step np (cb, ps) d = (Some f, ps)"
      using extract_step_board [OF True] by blast
    show ?thesis using Cons.IH [OF Cons.prems, of "Some f"] by (simp add: f)
  next
    case False
    then obtain p where p: "snd (snd p) = snd d" "\<forall>cb ps. extract_step np (cb, ps) d = (cb, ps @ [p])"
      using extract_step_piece [of d np] by auto
    have "\<forall>q \<in> set (ps @ [p]). snd (snd q) \<noteq> ''Chess_Board''"
      using Cons.prems False p(1) by simp
    from Cons.IH [OF this, of cb] show ?thesis using p(2) by simp
  qed
qed

text \<open>
  With a board detection in the list and none after it, the loop ends with that
  detection's frame and with the pieces of all the others, in order.
\<close>

lemma extract_detections_last_board:
  assumes post: "\<forall>d \<in> set post. snd d \<noteq> ''Chess_Board''"
  shows "extract_detections np (pre @ ((x_min, y_min, x_max, y_max), ''Chess_Board'') # post)
           = (Some (x_min, y_min, np_sub np x_max x_min, np_sub np y_max y_min),
              snd (extract_detections np (filter (\<lambda>d. snd d \<noteq> ''Chess_Board'') pre @ post)))"
proof -
  let ?b = "((x_min, y_min, x_max, y_max), ''Chess_Board'')"
  let ?keep = "filter (\<lambda>d. snd d \<noteq> ''Chess_Board'')"
  obtain cb ps where mid: "foldl (extract_step np) (None, []) pre = (cb, ps)"
    by (cases "foldl (extract_step np) (None, []) pre")
  have first: "fst (foldl (extract_step np) (None, []) (pre @ ?b # post))
                 = Some (x_min, y_min, np_sub np x_max x_min, np_sub np y_max y_min)"
    using post by (simp add: mid foldl_extract_no_board)
  have "?keep (pre @ ?b # post) = ?keep pre @ post"
    using post by (simp add: filter_id_conv)
  moreover have "?keep (?keep pre @ post) = ?keep pre @ post"
    using post by (simp add: filter_id_conv)
  ultimately have "snd (foldl (extract_step np) (None, []) (pre @ ?b # post))
                 = snd (foldl (extract_step np) (None, []) (?keep pre @ post))"
    using foldl_extract_pieces_filter [of np None "[]" "pre @ ?b # post"]
      foldl_extract_pieces_filter [of np None "[]" "?keep pre @ post"]
    by simp
  with first show ?thesis
    by (simp add: extract_detections_def prod_eq_iff)
qed

section \<open>Facts about the serializer\<close>

lemma str_nat_digit: "n < 10 \<Longrightarrow> str_nat n = [''0123456789'' ! n]"
  by (subst str_nat.simps) simp

lemma fen_flush_run: "n < 10 \<Longrightarrow> fen_flush (n, acc) = acc @ run_digit n"
  by (simp add: fen_flush_def run_digit_def str_nat_digit)

text \<open>
  The loop state and the specification's recursion agree as long as the count stays a
  single digit, which eight cells guarantee.
\<close>

lemma foldl_fen_cell_rle:
  "n + length cells < 10 \<Longrightarrow>
   fen_flush (foldl fen_cell (n, acc) cells) = acc @ rank_rle n cells"
proof (induction cells arbitrary: n acc)
  case Nil
  then show ?case by (simp add: fen_flush_run)
next
  case (Cons cell cells)
  show ?case
  proof (cases "cell = []")
    case True
    have "Suc n + length cells < 10" using Cons.prems by simp
    from Cons.IH [OF this] True show ?thesis by simp
  next
    case False
    have n: "n < 10" and z: "0 + length cells < 10" using Cons.prems by simp_all
    show ?thesis
      using False Cons.IH [OF z] n by (simp add: str_nat_digit run_digit_def)
  qed
qed

lemma upto_1_8: "[1..8] = [1, 2, 3, 4, 5, 6, 7, 8::int]"
  by (simp add: upto_rec1)

lemma fen_row_cells_rle: "length cells < 10 \<Longrightarrow> fen_row_cells cells = rank_rle 0 cells"
  using foldl_fen_cell_rle [of 0 cells "[]"] by (simp add: fen_row_cells_def)

lemma fen_of_board_cong:
  assumes "\<And>rk fl. 1 \<le> rk \<Longrightarrow> rk \<le> 8 \<Longrightarrow> 1 \<le> fl \<Longrightarrow> fl \<le> 8 \<Longrightarrow> b1 (rk, fl) = b2 (rk, fl)"
  shows "fen_of_board b1 a = fen_of_board b2 a"
proof -
  have "board_row b1 rk = board_row b2 rk" if "rk \<in> set (rev [1..8])" for rk
    using that assms by (auto simp add: board_row_def)
  then have "fen_rows b1 = fen_rows b2"
    by (simp add: fen_rows_def)
  then show ?thesis by (simp add: fen_of_board_def)
qed

text \<open>The definitions that evaluate \<open>image_to_fen\<close> on float32 detections.\<close>

lemmas eval_f32 = float32_def f32_sub_def round32_def round_half_even_def py_int_def
  Let_def eval_nat_numeral power_int_def

lemmas eval_fen = image_to_fen_def extract_detections_def det32_def row_index_def col_index_def
  assign_piece_def fen_mapping_def np_setitem_def np_index_def
  np_full_def fen_of_board_def fen_rows_def board_row_def upto_1_8 fen_row_cells_def
  fen_flush_def str_nat_digit eval_f32

section \<open>Facts about float32 rounding\<close>

text \<open>
  The exponent search of \<open>round32\<close> returns the floor of the binary logarithm on
  every number within its reach; three hundred steps reach every sum, difference and
  quotient of two float32 numbers.
\<close>

lemma floor_log2_unit: "1 \<le> x \<Longrightarrow> x < 2 \<Longrightarrow> \<lfloor>log 2 x\<rfloor> = 0"
proof -
  assume a: "1 \<le> x" "x < 2"
  then have "0 \<le> log 2 x" by simp
  moreover have "log 2 x < 1" using a by (simp add: log_less_iff)
  ultimately show ?thesis by (simp add: floor_eq_iff)
qed

lemma powi_step: "(2::real) powi (k + 1) = 2 * 2 powi k"
proof -
  have "(2::real) powi (k + 1) = 2 powi k * 2"
    by (rule power_int_add_1) simp
  then show ?thesis by simp
qed

lemma powi_down: "(2::real) powi (- int n) = 2 * 2 powi (- int (Suc n))"
  using powi_step [of "- int (Suc n)"] by simp

lemma powi_up: "(2::real) powi (int (Suc n) + 1) = 2 * 2 powi (int n + 1)"
  using powi_step [of "int n + 1"] by (simp add: add.commute)

lemma ilog2_correct:
  "2 powi (- int n) \<le> x \<Longrightarrow> x < 2 powi (int n + 1) \<Longrightarrow> ilog2 n x = \<lfloor>log 2 x\<rfloor>"
proof (induction n arbitrary: x)
  case 0
  then have "1 \<le> x" "x < 2" by simp_all
  then show ?case by (simp add: floor_log2_unit)
next
  case (Suc n)
  have p: "(0::real) < 2 powi (- int (Suc n))" by simp
  have pos: "0 < x" using Suc.prems(1) p by linarith
  have one: "(2::real) powi (- int n) \<le> 1"
    by (simp add: power_int_minus field_simps)
  have big: "(2::real) \<le> 2 powi (int n + 1)"
    using power_int_increasing [of 1 "int n + 1" "2::real"] by simp
  show ?case
  proof (cases "x < 1")
    case True
    have lo: "2 powi (- int n) \<le> 2 * x"
      using Suc.prems(1) powi_down [of n] by linarith
    have hi: "2 * x < 2 powi (int n + 1)"
      using True big by linarith
    have "log 2 (2 * x) = 1 + log 2 x" using pos by (simp add: log_mult)
    then have "\<lfloor>log 2 (2 * x)\<rfloor> = \<lfloor>log 2 x\<rfloor> + 1" by simp
    with Suc.IH [OF lo hi] True show ?thesis by simp
  next
    case False
    show ?thesis
    proof (cases "2 \<le> x")
      case True
      have lo: "2 powi (- int n) \<le> x / 2"
        using True one by linarith
      have hi: "x / 2 < 2 powi (int n + 1)"
        using Suc.prems(2) powi_up [of n] by linarith
      have "log 2 (x / 2) = log 2 x - 1" using pos by (simp add: log_divide)
      then have "\<lfloor>log 2 (x / 2)\<rfloor> = \<lfloor>log 2 x\<rfloor> - 1" by simp
      with Suc.IH [OF lo hi] True False show ?thesis by simp
    next
      case F2: False
      with False show ?thesis by (simp add: floor_log2_unit)
    qed
  qed
qed

section \<open>Facts about the board assignment\<close>

lemma np_setitem_cases:
  "np_setitem board (r, c) v =
     (if r < - 9 \<or> 8 < r \<or> c < - 9 \<or> 8 < c then Inl IndexError
      else Inr (board((if r < 0 then r + 9 else r, if c < 0 then c + 9 else c) := v)))"
  by (auto simp add: np_setitem_def np_index_def)

text \<open>
  For a piece with a known label the computed indices go into the assignment as they
  are: outside \<open>-9..8\<close> it raises, from \<open>-9\<close> to \<open>-1\<close> it writes nine cells further
  on, and only an index 0 ends in the unused row or column.
\<close>

lemma place_piece_known:
  assumes "fen_mapping piece = Some s"
    and "row_index np y_c y_b h_s = Inr r" and "col_index np x_c x_b w_s = Inr c"
  shows "place_piece np (x_b, y_b, w_s, h_s) board (x_c, y_c, piece) =
     (if r < - 9 \<or> 8 < r \<or> c < - 9 \<or> 8 < c then Inl IndexError
      else Inr (board((if r < 0 then r + 9 else r, if c < 0 then c + 9 else c) := s)))"
  using assms by (simp add: assign_piece_def np_setitem_cases)

section \<open>Claims about the square mapper\<close>

text \<open>
  C1, grid completeness, as the specification states it: a piece whose centre lies
  strictly inside the board frame gets a rank and a file index in 1..8. In float32 the
  claim fails at the far edge. Take the board box from \<open>x = 2^-15\<close> to
  \<open>x = 1000 + 2^-14\<close> and from \<open>y = 0\<close> to \<open>y = 80\<close>, and a white pawn with the box
  \<open>(999, 0, 1001, 10)\<close>. All these numbers are float32. The centre of the pawn is
  \<open>(1000, 5)\<close>, strictly inside the box. The width \<open>1000 + 2^-15\<close> is a tie and rounds
  to 1000, the offset \<open>1000 - 2^-15\<close> is a tie and rounds to 1000, the square width
  is 125 and the quotient is 8: the column index is 9 and the assignment raises
  \<open>IndexError\<close>.
\<close>

theorem grid_completeness_float32:
  "round32 (1 / 32768) = Finite (1 / 32768)
   \<and> round32 (1000 + 1 / 16384) = Finite (1000 + 1 / 16384)
   \<and> extract_detections float32
        [det32 (1 / 32768) 0 (1000 + 1 / 16384) 80 ''Chess_Board'',
         det32 999 0 1001 10 ''White_Pawn'']
       = (Some (Finite (1 / 32768), Finite 0, Finite 1000, Finite 80),
          [(Finite 1000, Finite 5, ''White_Pawn'')])
   \<and> (1 / 32768 :: real) < 1000 \<and> (1000 :: real) < 1000 + 1 / 16384
   \<and> (0 :: real) < 5 \<and> (5 :: real) < 80
   \<and> np_div float32 (Finite 1000) (np_lit float32 8) = Finite 125
   \<and> np_sub float32 (Finite 1000) (Finite (1 / 32768)) = Finite 1000
   \<and> col_index float32 (Finite 1000) (Finite (1 / 32768)) (Finite 125) = Inr 9
   \<and> row_index float32 (Finite 5) (Finite 0) (Finite 10) = Inr 8
   \<and> image_to_fen float32
        [det32 (1 / 32768) 0 (1000 + 1 / 16384) 80 ''Chess_Board'',
         det32 999 0 1001 10 ''White_Pawn''] ''w''
       = Inl IndexError"
  by (simp add: eval_fen)

text \<open>
  C2, as the specification states it: a detection with a known label and an index
  outside 1..8 is dropped without an error and without a change to the 64 cells. The
  code assigns \<open>board[row_index, col_index]\<close> with no range test. With the board box
  \<open>(0, 0, 80, 80)\<close>, a white pawn centred at \<open>(85, 5)\<close>, just right of the board, gets
  column index 9 and the assignment raises \<open>IndexError\<close>; a white pawn centred at
  \<open>(5, 95)\<close>, below the board, gets row index \<open>-1\<close>, which numpy counts from the
  end, so the pawn lands on rank 8 and the output differs from that of the board alone.
\<close>

theorem out_of_range_counterexample:
  "fen_mapping ''White_Pawn'' = Some ''P''
   \<and> col_index float32 (Finite 85) (Finite 0) (Finite 10) = Inr 9
   \<and> image_to_fen float32
        [det32 0 0 80 80 ''Chess_Board'', det32 80 0 90 10 ''White_Pawn''] ''w''
       = Inl IndexError
   \<and> row_index float32 (Finite 95) (Finite 0) (Finite 10) = Inr (- 1)
   \<and> image_to_fen float32
        [det32 0 0 80 80 ''Chess_Board'', det32 0 90 10 100 ''White_Pawn''] ''w''
       = Inr ''P7/8/8/8/8/8/8/8 w - - 0 1''
   \<and> image_to_fen float32 [det32 0 0 80 80 ''Chess_Board''] ''w''
       = Inr ''8/8/8/8/8/8/8/8 w - - 0 1''"
  by (simp add: eval_fen)

section \<open>Claims about the serializer and the board detection\<close>

text \<open>
  C3, the serializer. For every grid and active colour the loop of the code produces
  the string the specification describes. The standard starting arrangement gives
  \<open>rnbqkbnr/pppppppp/8/8/8/8/PPPPPPPP/RNBQKBNR\<close> followed by the trailer, and a rank whose
  only piece is \<open>P\<close> on file 5 gives \<open>4P3\<close>.
\<close>

theorem serializer_refines_spec:
  "(\<forall>grid active_color. fen_of_board grid active_color = serializer_spec grid active_color)
   \<and> fen_of_board starting_board ''w''
       = ''rnbqkbnr/pppppppp/8/8/8/8/PPPPPPPP/RNBQKBNR w - - 0 1''
   \<and> fen_row_cells ['''', '''', '''', '''', ''P'', '''', '''', ''''] = ''4P3''"
proof -
  have a: "fen_of_board grid active_color = serializer_spec grid active_color"
    for grid active_color
    by (simp add: fen_of_board_def serializer_spec_def fen_rows_def board_row_def upto_1_8
        fen_row_cells_rle)
  have b: "fen_of_board starting_board ''w''
             = ''rnbqkbnr/pppppppp/8/8/8/8/PPPPPPPP/RNBQKBNR w - - 0 1''"
    by (simp add: fen_of_board_def fen_rows_def board_row_def upto_1_8 fen_row_cells_def
        fen_flush_def str_nat_digit starting_board_def)
  have c: "fen_row_cells ['''', '''', '''', '''', ''P'', '''', '''', ''''] = ''4P3''"
    by (simp add: fen_row_cells_def fen_flush_def str_nat_digit)
  from a b c show ?thesis by blast
qed

text \<open>
  C4, missing board. When no detection is labelled \<open>Chess_Board\<close>, \<open>image_to_fen\<close>
  raises the \<open>ValueError\<close> of the missing chessboard: it returns no string, and the
  test comes before the board array is made. In \<open>main\<close> the error ends the pass.
\<close>

theorem missing_board_fails:
  assumes "\<forall>d \<in> set results. snd d \<noteq> ''Chess_Board''"
  shows "image_to_fen np results active_color
           = Inl (ValueError ''Chessboard not detected in the image. Cannot generate FEN.'')
       \<and> (\<forall>w. model_exists w \<and> frame_captured w \<and> detections w = results \<longrightarrow>
             main np w = [FenGenerationError
                 (ValueError ''Chessboard not detected in the image. Cannot generate FEN.'')])"
proof -
  have "fst (extract_detections np results) = None"
    using assms by (simp add: extract_detections_def foldl_extract_no_board)
  then have "image_to_fen np results a
           = Inl (ValueError ''Chessboard not detected in the image. Cannot generate FEN.'')" for a
    by (cases "extract_detections np results") (simp add: image_to_fen_def)
  then show ?thesis by (simp add: main_def)
qed

theorem missing_board_fails_witness:
  "snd (det32 40 70 50 80 ''White_King'') \<noteq> ''Chess_Board''
   \<and> image_to_fen float32 [det32 40 70 50 80 ''White_King''] ''w''
       = Inl (ValueError ''Chessboard not detected in the image. Cannot generate FEN.'')
   \<and> main float32 (world_of [det32 40 70 50 80 ''White_King''] table_e)
       = [FenGenerationError
            (ValueError ''Chessboard not detected in the image. Cannot generate FEN.'')]"
proof -
  have h: "\<forall>d \<in> set [det32 40 70 50 80 ''White_King'']. snd d \<noteq> ''Chess_Board''"
    by (simp add: det32_def)
  from missing_board_fails [OF h, of float32 "''w''"] h show ?thesis
    by (simp add: world_of_def)
qed

text \<open>The first variant fails too in that case, with the \<open>TypeError\<close> of the unpacking.\<close>

lemma missing_board_bare:
  assumes "\<forall>d \<in> set results. snd d \<noteq> ''Chess_Board''"
  shows "image_to_fen_bare np results = Inl TypeError"
proof -
  have "fst (extract_detections np results) = None"
    using assms by (simp add: extract_detections_def foldl_extract_no_board)
  then show ?thesis
    by (cases "extract_detections np results") (simp add: image_to_fen_bare_def)
qed

text \<open>
  C9, the last board detection wins. When the list holds a board detection with no
  board detection after it, the frame is that detection's \<open>(x_min, y_min, width, height)\<close>;
  no piece of the piece list is labelled \<open>Chess_Board\<close>; and the board detections before
  it may be changed or removed without a change to the result.
\<close>

theorem last_board_wins:
  assumes "\<forall>d \<in> set post. snd d \<noteq> ''Chess_Board''"
  shows "fst (extract_detections np (pre @ ((x_min, y_min, x_max, y_max), ''Chess_Board'') # post))
           = Some (x_min, y_min, np_sub np x_max x_min, np_sub np y_max y_min)
       \<and> (\<forall>p \<in> set (snd (extract_detections np
                           (pre @ ((x_min, y_min, x_max, y_max), ''Chess_Board'') # post))).
             snd (snd p) \<noteq> ''Chess_Board'')
       \<and> (\<forall>pre'. filter (\<lambda>d. snd d \<noteq> ''Chess_Board'') pre'
                    = filter (\<lambda>d. snd d \<noteq> ''Chess_Board'') pre \<longrightarrow>
             image_to_fen np (pre' @ ((x_min, y_min, x_max, y_max), ''Chess_Board'') # post) active_color
               = image_to_fen np (pre @ ((x_min, y_min, x_max, y_max), ''Chess_Board'') # post) active_color)"
proof (intro conjI allI impI)
  show "fst (extract_detections np (pre @ ((x_min, y_min, x_max, y_max), ''Chess_Board'') # post))
           = Some (x_min, y_min, np_sub np x_max x_min, np_sub np y_max y_min)"
    by (simp add: extract_detections_last_board [OF assms])
next
  show "\<forall>p \<in> set (snd (extract_detections np
                           (pre @ ((x_min, y_min, x_max, y_max), ''Chess_Board'') # post))).
             snd (snd p) \<noteq> ''Chess_Board''"
    unfolding extract_detections_def by (rule foldl_extract_labels) simp
next
  fix pre'
  assume "filter (\<lambda>d. snd d \<noteq> ''Chess_Board'') pre' = filter (\<lambda>d. snd d \<noteq> ''Chess_Board'') pre"
  then have "extract_detections np (pre' @ ((x_min, y_min, x_max, y_max), ''Chess_Board'') # post)
           = extract_detections np (pre @ ((x_min, y_min, x_max, y_max), ''Chess_Board'') # post)"
    by (simp add: extract_detections_last_board [OF assms])
  then show "image_to_fen np (pre' @ ((x_min, y_min, x_max, y_max), ''Chess_Board'') # post) active_color
               = image_to_fen np (pre @ ((x_min, y_min, x_max, y_max), ''Chess_Board'') # post) active_color"
    by (simp add: image_to_fen_def)
qed

theorem last_board_wins_witness:
  "snd (det32 40 70 50 80 ''White_King'') \<noteq> ''Chess_Board''
   \<and> fst (extract_detections float32
              [det32 0 0 40 40 ''Chess_Board'', det32 0 0 80 80 ''Chess_Board'',
               det32 40 70 50 80 ''White_King'']) = Some (Finite 0, Finite 0, Finite 80, Finite 80)
   \<and> image_to_fen float32
         [det32 0 0 80 80 ''Chess_Board'', det32 40 70 50 80 ''White_King''] ''w''
     = image_to_fen float32
         [det32 0 0 40 40 ''Chess_Board'', det32 0 0 80 80 ''Chess_Board'',
          det32 40 70 50 80 ''White_King''] ''w''"
proof -
  have h: "\<forall>d \<in> set [det32 40 70 50 80 ''White_King'']. snd d \<noteq> ''Chess_Board''"
    by (simp add: det32_def)
  have b: "det32 0 0 80 80 ''Chess_Board''
             = ((Finite 0, Finite 0, Finite 80, Finite 80), ''Chess_Board'')"
    by (simp add: det32_def)
  have w: "np_sub float32 (Finite 80) (Finite 0) = Finite 80"
    by (simp add: eval_f32)
  note t = last_board_wins [OF h, where np = float32
      and pre = "[det32 0 0 40 40 ''Chess_Board'']"
      and x_min = "Finite 0" and y_min = "Finite 0" and x_max = "Finite 80" and y_max = "Finite 80"
      and active_color = "''w''"]
  from t have first: "fst (extract_detections float32
              [det32 0 0 40 40 ''Chess_Board'', det32 0 0 80 80 ''Chess_Board'',
               det32 40 70 50 80 ''White_King'']) = Some (Finite 0, Finite 0, Finite 80, Finite 80)"
    by (simp add: b w)
  from t have "\<forall>pre'. filter (\<lambda>d. snd d \<noteq> ''Chess_Board'') pre'
        = filter (\<lambda>d. snd d \<noteq> ''Chess_Board'') [det32 0 0 40 40 ''Chess_Board''] \<longrightarrow>
      image_to_fen float32 (pre' @ ((Finite 0, Finite 0, Finite 80, Finite 80), ''Chess_Board'')
          # [det32 40 70 50 80 ''White_King'']) ''w''
        = image_to_fen float32 ([det32 0 0 40 40 ''Chess_Board'']
            @ ((Finite 0, Finite 0, Finite 80, Finite 80), ''Chess_Board'')
            # [det32 40 70 50 80 ''White_King'']) ''w''"
    by blast
  from this [rule_format, of "[]"] have "image_to_fen float32
         [det32 0 0 80 80 ''Chess_Board'', det32 40 70 50 80 ''White_King''] ''w''
     = image_to_fen float32
         [det32 0 0 40 40 ''Chess_Board'', det32 0 0 80 80 ''Chess_Board'',
          det32 40 70 50 80 ''White_King''] ''w''"
    by (simp add: b det32_def)
  with first show ?thesis by (simp add: det32_def)
qed

section \<open>Facts about the program on its variables\<close>

text \<open>The piece loop changes the board variable only, as \<open>place_pieces\<close> computes it.\<close>

lemma place_loop_ok:
  "place_pieces np fr (board_var s) ps = Inr b \<Longrightarrow>
   place_loop np fr ps s = (None, s\<lparr>board_var := b\<rparr>)"
proof (induction ps arbitrary: s)
  case Nil
  then show ?case by simp
next
  case (Cons p ps)
  then obtain b' where p: "place_piece np fr (board_var s) p = Inr b'"
    by (cases "place_piece np fr (board_var s) p") simp_all
  with Cons.prems have "place_pieces np fr (board_var (s\<lparr>board_var := b'\<rparr>)) ps = Inr b"
    by simp
  from Cons.IH [OF this] p show ?case by simp
qed

lemma place_loop_error:
  "place_pieces np fr (board_var s) ps = Inl e \<Longrightarrow> fst (place_loop np fr ps s) = Some e"
proof (induction ps arbitrary: s)
  case Nil
  then show ?case by simp
next
  case (Cons p ps)
  show ?case
  proof (cases "place_piece np fr (board_var s) p")
    case (Inl e')
    with Cons.prems show ?thesis by simp
  next
    case (Inr b')
    with Cons.prems have "place_pieces np fr (board_var (s\<lparr>board_var := b'\<rparr>)) ps = Inl e"
      by simp
    from Cons.IH [OF this] Inr show ?thesis by simp
  qed
qed

text \<open>The column loop is \<open>fen_cell\<close> on the two variables it writes.\<close>

lemma col_body_eq:
  "(empty_count_var (col_body row s col), fen_row_var (col_body row s col))
     = fen_cell (empty_count_var s, fen_row_var s) (board_var s (row, col))
   \<and> board_var (col_body row s col) = board_var s
   \<and> fen_rows_var (col_body row s col) = fen_rows_var s"
  by (simp add: col_body_def Let_def)

lemma foldl_col_body:
  "(empty_count_var (foldl (col_body row) s cols), fen_row_var (foldl (col_body row) s cols))
     = foldl fen_cell (empty_count_var s, fen_row_var s) (map (\<lambda>col. board_var s (row, col)) cols)
   \<and> board_var (foldl (col_body row) s cols) = board_var s
   \<and> fen_rows_var (foldl (col_body row) s cols) = fen_rows_var s"
proof (induction cols arbitrary: s)
  case Nil
  then show ?case by simp
next
  case (Cons col cols)
  note step = col_body_eq [of row s col]
  from Cons.IH [of "col_body row s col"] step show ?case
    by (simp del: fen_cell.simps)
qed

lemma row_body_eq:
  "fen_rows_var (row_body s row) = fen_rows_var s @ [fen_row_cells (board_row (board_var s) row)]
   \<and> board_var (row_body s row) = board_var s"
proof -
  let ?s1 = "s\<lparr>empty_count_var := 0, fen_row_var := ''''\<rparr>"
  let ?s2 = "foldl (col_body row) ?s1 [1..8]"
  from foldl_col_body [of row ?s1 "[1..8]"]
  have st: "(empty_count_var ?s2, fen_row_var ?s2)
              = foldl fen_cell (0, '''') (board_row (board_var s) row)"
    and b: "board_var ?s2 = board_var s" and r: "fen_rows_var ?s2 = fen_rows_var s"
    by (simp_all add: board_row_def)
  have "fen_flush (empty_count_var ?s2, fen_row_var ?s2)
          = fen_row_cells (board_row (board_var s) row)"
    by (simp only: st fen_row_cells_def)
  then show ?thesis using b r
    by (cases "0 < empty_count_var ?s2") (simp_all add: row_body_def Let_def fen_flush_def)
qed

lemma foldl_row_body:
  "fen_rows_var (foldl row_body s rows)
     = fen_rows_var s @ map (\<lambda>row. fen_row_cells (board_row (board_var s) row)) rows
   \<and> board_var (foldl row_body s rows) = board_var s"
proof (induction rows arbitrary: s)
  case Nil
  then show ?case by simp
next
  case (Cons row rows)
  from Cons.IH [of "row_body s row"] row_body_eq [of s row] show ?case by simp
qed

text \<open>Whatever the variables hold at the start, a run returns what the loops compute.\<close>

lemma run_fen_result:
  "fst (run_fen np chessboard pieces active_color s)
     = fen_from_detections np chessboard pieces active_color"
proof -
  obtain x_b y_b w_b h_b where cb: "chessboard = (x_b, y_b, w_b, h_b)"
    by (metis prod.collapse)
  let ?fr = "(x_b, y_b, np_div np w_b (np_lit np 8), np_div np h_b (np_lit np 8))"
  let ?s1 = "s\<lparr>board_var := np_full\<rparr>"
  show ?thesis
  proof (cases "place_pieces np ?fr np_full pieces")
    case (Inl e)
    then have "fst (place_loop np ?fr pieces ?s1) = Some e"
      by (simp add: place_loop_error)
    then obtain s2 where "place_loop np ?fr pieces ?s1 = (Some e, s2)"
      by (cases "place_loop np ?fr pieces ?s1") simp
    then show ?thesis using Inl
      by (simp add: cb Let_def)
  next
    case (Inr b)
    then have pl: "place_loop np ?fr pieces ?s1 = (None, s\<lparr>board_var := b\<rparr>)"
      using place_loop_ok [of np ?fr ?s1 pieces b] by simp
    have "fen_rows_var (foldl row_body (s\<lparr>board_var := b, fen_rows_var := []\<rparr>) (rev [1..8]))
            = fen_rows b"
      using foldl_row_body [of "s\<lparr>board_var := b, fen_rows_var := []\<rparr>" "rev [1..8]"]
      by (simp add: fen_rows_def)
    then show ?thesis using Inr pl
      by (simp add: cb Let_def fen_of_board_def)
  qed
qed

section \<open>Claim about repeated runs\<close>

text \<open>
  C8, idempotence. With the frame, the piece list and the active colour fixed, the mapper
  followed by the serializer is run twice in a row, the second run starting on the
  variables as the first run has left them (the filled board, the rank strings, the
  last count), and the first run starting on any values at all. Both runs give the same
  result, string or error: it is the one the loops compute from a fresh board, and no
  run reads a value from before its start.
\<close>

theorem runs_identical:
  "fst (run_twice np chessboard pieces active_color s)
     = snd (run_twice np chessboard pieces active_color s)
   \<and> fst (run_twice np chessboard pieces active_color s)
     = fen_from_detections np chessboard pieces active_color
   \<and> fst (run_fen np chessboard pieces active_color s)
     = fst (run_fen np chessboard pieces active_color s')"
proof -
  obtain r1 s1 where a: "run_fen np chessboard pieces active_color s = (r1, s1)"
    by (cases "run_fen np chessboard pieces active_color s")
  obtain r2 s2 where b: "run_fen np chessboard pieces active_color s1 = (r2, s2)"
    by (cases "run_fen np chessboard pieces active_color s1")
  have "r1 = fen_from_detections np chessboard pieces active_color"
    using run_fen_result [of np chessboard pieces active_color s] a by simp
  moreover have "r2 = fen_from_detections np chessboard pieces active_color"
    using run_fen_result [of np chessboard pieces active_color s1] b by simp
  ultimately show ?thesis
    using a b run_fen_result [of np chessboard pieces active_color s']
    by (simp add: run_twice_def)
qed

section \<open>Facts about the robot controller\<close>

lemma int_of_char_cases:
  "(\<exists>n. int_of_char ch = Inr n) \<or> (\<exists>msg. int_of_char ch = Inl (ValueError msg))"
  by (simp add: int_of_char_def)

lemma loc_rows_on_square:
  assumes "int_of_char d = Inr n"
  shows "loc_rows df [f] n = filter (on_square f d) df"
  using assms by (auto simp add: loc_rows_def on_square_def intro: filter_cong)

lemma filter_empty_find: "filter P xs = [] \<longleftrightarrow> find P xs = None"
  by (induction xs) auto

lemma hd_filter_find: "find P xs = Some x \<Longrightarrow> hd (filter P xs) = x"
  by (induction xs) (auto split: if_splits)

lemma move_parts:
  assumes "4 \<le> length move"
  shows "take 2 move ! 0 = move ! 0" "take 2 move ! Suc 0 = move ! 1"
    "take 2 (drop 2 move) ! 0 = move ! 2" "take 2 (drop 2 move) ! Suc 0 = move ! 3"
  using assms by (simp_all add: numeral_2_eq_2 numeral_3_eq_3)

lemma get_move_coordinates_found:
  assumes len: "4 \<le> length move"
    and f1: "find (on_square (move ! 0) (move ! 1)) df = Some r1"
    and f2: "find (on_square (move ! 2) (move ! 3)) df = Some r2"
  shows "get_move_coordinates df move = Inr (Pick r1, Place r2)"
proof -
  from f1 have "on_square (move ! 0) (move ! 1) r1" by (auto dest: find_Some_iff [THEN iffD1])
  then have d1: "int_of_char (move ! 1) = Inr (Row r1)" by (simp add: on_square_def)
  from f2 have "on_square (move ! 2) (move ! 3) r2" by (auto dest: find_Some_iff [THEN iffD1])
  then have d2: "int_of_char (move ! 3) = Inr (Row r2)" by (simp add: on_square_def)
  have ne1: "filter (on_square (move ! 0) (move ! 1)) df \<noteq> []"
    using f1 by (simp add: filter_empty_find)
  have ne2: "filter (on_square (move ! 2) (move ! 3)) df \<noteq> []"
    using f2 by (simp add: filter_empty_find)
  show ?thesis
    using len d1 d2 ne1 ne2 hd_filter_find [OF f1] hd_filter_find [OF f2]
    by (simp add: get_move_coordinates_def Let_def move_parts loc_rows_on_square hd_map)
qed

lemma get_move_coordinates_absent:
  assumes len: "4 \<le> length move"
    and ab: "find (on_square (move ! 0) (move ! 1)) df = None
           \<or> find (on_square (move ! 2) (move ! 3)) df = None"
  shows "\<exists>msg. get_move_coordinates df move = Inl (ValueError msg)"
proof -
  consider (e1) msg where "int_of_char (move ! 1) = Inl (ValueError msg)"
    | (n1) n where "int_of_char (move ! 1) = Inr n"
    using int_of_char_cases [of "move ! 1"] by blast
  then show ?thesis
  proof cases
    case e1
    then show ?thesis using len by (simp add: get_move_coordinates_def Let_def move_parts)
  next
    case n1
    show ?thesis
    proof (cases "find (on_square (move ! 0) (move ! 1)) df")
      case None
      then show ?thesis using len n1
        by (simp add: get_move_coordinates_def Let_def move_parts loc_rows_on_square
            filter_empty_find)
    next
      case (Some r1)
      then have none2: "find (on_square (move ! 2) (move ! 3)) df = None" using ab by simp
      have ne1: "filter (on_square (move ! 0) (move ! 1)) df \<noteq> []"
        using Some by (simp add: filter_empty_find)
      consider (e2) msg where "int_of_char (move ! 3) = Inl (ValueError msg)"
        | (n2) n where "int_of_char (move ! 3) = Inr n"
        using int_of_char_cases [of "move ! 3"] by blast
      then show ?thesis
      proof cases
        case e2
        then show ?thesis using len n1 ne1
          by (simp add: get_move_coordinates_def Let_def move_parts loc_rows_on_square)
      next
        case n2
        then show ?thesis using len n1 ne1 none2
          by (simp add: get_move_coordinates_def Let_def move_parts loc_rows_on_square
              filter_empty_find)
      qed
    qed
  qed
qed

text \<open>Every exception of \<open>get_move_coordinates\<close> is a \<open>ValueError\<close>.\<close>

lemma get_move_coordinates_error:
  "get_move_coordinates df move = Inl e \<Longrightarrow> \<exists>msg. e = ValueError msg"
  using int_of_char_cases [of "take 2 move ! 1"] int_of_char_cases [of "take 2 (drop 2 move) ! 1"]
  by (auto simp add: get_move_coordinates_def Let_def split: if_splits sum.splits)

text \<open>
  So \<open>execute_robot_move\<close> catches each of them: it prints the error and returns, and
  the pass of \<open>main\<close> goes on to its last message.
\<close>

lemma execute_robot_move_catches:
  assumes "get_move_coordinates df move = Inl e"
  shows "execute_robot_move df move = Inr [ErrorInRobotControl e]"
  using assms get_move_coordinates_error [OF assms]
  by (auto simp add: execute_robot_move_def value_or_file_error_def)

lemma robot_step_after_error:
  assumes "mapping_file w = Some df" and "get_move_coordinates df move = Inl e"
  shows "robot_step w move = [ErrorInRobotControl e, TurnCompleted]"
  using assms by (simp add: robot_step_def RobotController_def execute_robot_move_catches)

lemmas eval_robot = get_move_coordinates_def execute_robot_move_def value_or_file_error_def
  loc_rows_def int_of_char_def table_e_def HOME_COORDINATE_def Let_def

section \<open>Claims about the robot controller and the orchestrator\<close>

text \<open>
  C5, errors of the coordinate lookup, as the specification states it: a square missing
  from the table or a move of the wrong format is surfaced to the caller of
  \<open>execute_robot_move\<close> and the pass does not end as a success. In the code
  \<open>execute_robot_move\<close> catches the \<open>ValueError\<close> itself and returns normally. With both
  kings on the board, the engine answering \<open>e1e2\<close> and a table without the square
  \<open>e1\<close>, the pass prints the error and then the message of a completed turn; a move of
  two characters is handled the same way.
\<close>

theorem robot_error_swallowed:
  "get_move_coordinates [] ''e1e2''
     = Inl (ValueError ''Start square 'e1' not found in mapping file.'')
   \<and> execute_robot_move [] ''e1e2''
     = Inr [ErrorInRobotControl (ValueError ''Start square 'e1' not found in mapping file.'')]
   \<and> execute_robot_move table_e ''e7''
     = Inr [ErrorInRobotControl
              (ValueError ''Invalid move format 'e7'. Expected format like 'e2e4'.'')]
   \<and> main float32 (world_of two_kings [])
     = [GeneratedFEN ''4k3/8/8/8/8/8/8/4K3 w - - 0 1'',
        EngineQueried ''4k3/8/8/8/8/8/8/4K3 w - - 0 1'',
        BestMoveFound ''e1e2'',
        ErrorInRobotControl (ValueError ''Start square 'e1' not found in mapping file.''),
        TurnCompleted]"
proof -
  have fen: "image_to_fen float32 two_kings ''w'' = Inr ''4k3/8/8/8/8/8/8/4K3 w - - 0 1''"
    by (simp add: two_kings_def eval_fen)
  have g: "get_move_coordinates [] ''e1e2''
     = Inl (ValueError ''Start square 'e1' not found in mapping file.'')"
    by (simp add: eval_robot)
  have x: "execute_robot_move [] ''e1e2''
     = Inr [ErrorInRobotControl (ValueError ''Start square 'e1' not found in mapping file.'')]"
    by (simp add: execute_robot_move_def value_or_file_error_def g)
  have y: "execute_robot_move table_e ''e7''
     = Inr [ErrorInRobotControl
              (ValueError ''Invalid move format 'e7'. Expected format like 'e2e4'.'')]"
    by (simp add: eval_robot)
  have m: "main float32 (world_of two_kings [])
     = [GeneratedFEN ''4k3/8/8/8/8/8/8/4K3 w - - 0 1'',
        EngineQueried ''4k3/8/8/8/8/8/8/4K3 w - - 0 1'',
        BestMoveFound ''e1e2'',
        ErrorInRobotControl (ValueError ''Start square 'e1' not found in mapping file.''),
        TurnCompleted]"
    using fen x
    by (simp add: main_def engine_step_def robot_step_def get_best_move_def
        RobotController_def world_of_def engine_e1e2_def)
  from g x y m show ?thesis by blast
qed

theorem robot_error_swallowed_witness:
  "TurnCompleted \<in> set (main float32 (world_of two_kings []))
   \<and> ErrorInRobotControl (ValueError ''Start square 'e1' not found in mapping file.'')
       \<in> set (main float32 (world_of two_kings []))"
  using robot_error_swallowed by simp

text \<open>
  C6, the waypoint sequence. For a move of four characters or more: when the table has
  a row for the origin square and a row for the destination square, the lookup returns
  the \<open>Pick\<close> of the first and the \<open>Place\<close> of the second (the first matching row each
  time), and the command printed is pick, pick, home, place, place, home; when either
  square has no row, the lookup raises \<open>ValueError\<close>.
\<close>

theorem waypoint_sequence:
  assumes "4 \<le> length move"
  shows "(\<forall>r1 r2. find (on_square (move ! 0) (move ! 1)) df = Some r1
                \<and> find (on_square (move ! 2) (move ! 3)) df = Some r2 \<longrightarrow>
            get_move_coordinates df move = Inr (Pick r1, Place r2)
            \<and> execute_robot_move df move
                = Inr [RobotFinalCommand move
                         [Pick r1, Pick r1, HOME_COORDINATE,
                          Place r2, Place r2, HOME_COORDINATE]])
       \<and> (find (on_square (move ! 0) (move ! 1)) df = None
            \<or> find (on_square (move ! 2) (move ! 3)) df = None \<longrightarrow>
            (\<exists>msg. get_move_coordinates df move = Inl (ValueError msg)))"
proof (intro conjI allI impI)
  fix r1 r2
  assume f: "find (on_square (move ! 0) (move ! 1)) df = Some r1
           \<and> find (on_square (move ! 2) (move ! 3)) df = Some r2"
  then show g: "get_move_coordinates df move = Inr (Pick r1, Place r2)"
    using assms by (simp add: get_move_coordinates_found)
  then show "execute_robot_move df move
                = Inr [RobotFinalCommand move
                         [Pick r1, Pick r1, HOME_COORDINATE,
                          Place r2, Place r2, HOME_COORDINATE]]"
    by (simp add: execute_robot_move_def)
next
  assume "find (on_square (move ! 0) (move ! 1)) df = None
            \<or> find (on_square (move ! 2) (move ! 3)) df = None"
  then show "\<exists>msg. get_move_coordinates df move = Inl (ValueError msg)"
    using assms by (simp add: get_move_coordinates_absent)
qed

theorem waypoint_sequence_witness:
  "4 \<le> length ''e7e8''
   \<and> find (on_square (''e7e8'' ! 0) (''e7e8'' ! 1)) table_e = Some (table_e ! 0)
   \<and> find (on_square (''e7e8'' ! 2) (''e7e8'' ! 3)) table_e = Some (table_e ! 1)
   \<and> execute_robot_move table_e ''e7e8''
       = Inr [RobotFinalCommand ''e7e8''
                [''[0.30; 0.05; 0.10]'', ''[0.30; 0.05; 0.10]'', ''[0.45; 0; 0.49]'',
                 ''[0.35; 0.05; 0.12]'', ''[0.35; 0.05; 0.12]'', ''[0.45; 0; 0.49]'']]
   \<and> 4 \<le> length ''e7a1''
   \<and> find (on_square (''e7a1'' ! 2) (''e7a1'' ! 3)) table_e = None
   \<and> (\<exists>msg. get_move_coordinates table_e ''e7a1'' = Inl (ValueError msg))"
proof -
  have l1: "4 \<le> length ''e7e8''" and l2: "4 \<le> length ''e7a1''" by simp_all
  have f1: "find (on_square (''e7e8'' ! 0) (''e7e8'' ! 1)) table_e = Some (table_e ! 0)"
    by (simp add: on_square_def int_of_char_def table_e_def)
  have f2: "find (on_square (''e7e8'' ! 2) (''e7e8'' ! 3)) table_e = Some (table_e ! 1)"
    by (simp add: on_square_def int_of_char_def table_e_def)
  have f3: "find (on_square (''e7a1'' ! 2) (''e7a1'' ! 3)) table_e = None"
    by (simp add: on_square_def int_of_char_def table_e_def)
  from waypoint_sequence [OF l1, of table_e] f1 f2
  have "execute_robot_move table_e ''e7e8''
       = Inr [RobotFinalCommand ''e7e8''
                [Pick (table_e ! 0), Pick (table_e ! 0), HOME_COORDINATE,
                 Place (table_e ! 1), Place (table_e ! 1), HOME_COORDINATE]]"
    by blast
  then have a: "execute_robot_move table_e ''e7e8''
       = Inr [RobotFinalCommand ''e7e8''
                [''[0.30; 0.05; 0.10]'', ''[0.30; 0.05; 0.10]'', ''[0.45; 0; 0.49]'',
                 ''[0.35; 0.05; 0.12]'', ''[0.35; 0.05; 0.12]'', ''[0.45; 0; 0.49]'']]"
    by (simp add: table_e_def HOME_COORDINATE_def)
  from waypoint_sequence [OF l2, of table_e] f3
  have b: "\<exists>msg. get_move_coordinates table_e ''e7a1'' = Inl (ValueError msg)"
    by blast
  from l1 l2 f1 f2 f3 a b show ?thesis by blast
qed

text \<open>
  C10, the move suffix. For a move of four characters or more, the lookup returns for
  the whole move what it returns for its first four characters: the same coordinates
  or the same error. A promotion letter neither raises nor changes a coordinate.
\<close>

theorem move_suffix_ignored:
  assumes "4 \<le> length move"
  shows "get_move_coordinates df move = get_move_coordinates df (take 4 move)"
proof -
  have "take 2 (take 4 move) = take 2 move" by simp
  moreover have "take 2 (drop 2 (take 4 move)) = take 2 (drop 2 move)"
    by (simp add: drop_take)
  moreover have "\<not> length (take 4 move) < 4" using assms by simp
  ultimately show ?thesis using assms
    by (simp add: get_move_coordinates_def)
qed

theorem move_suffix_ignored_witness:
  "4 \<le> length ''e7e8q''
   \<and> get_move_coordinates table_e ''e7e8q'' = get_move_coordinates table_e ''e7e8''
   \<and> get_move_coordinates table_e ''e7e8'' = Inr (''[0.30; 0.05; 0.10]'', ''[0.35; 0.05; 0.12]'')"
proof -
  have l: "4 \<le> length ''e7e8q''" by simp
  have v: "get_move_coordinates table_e ''e7e8''
             = Inr (''[0.30; 0.05; 0.10]'', ''[0.35; 0.05; 0.12]'')"
    by (simp add: eval_robot)
  from move_suffix_ignored [OF l, of table_e] l v show ?thesis by simp
qed

text \<open>
  C7, kingless rejection. When the generated string lacks \<open>k\<close> or lacks \<open>K\<close>, the pass
  holds no engine query, and its outcome is the same whatever the engine is: it stops
  at the warning.
\<close>

theorem kingless_rejection:
  assumes "image_to_fen np (detections w) ''w'' = Inr fen_string"
    and "CHR ''k'' \<notin> set fen_string \<or> CHR ''K'' \<notin> set fen_string"
  shows "(\<forall>f. EngineQueried f \<notin> set (main np w))
       \<and> (\<forall>sf. main np (w\<lparr>engine := sf\<rparr>) = main np w)
       \<and> (model_exists w \<and> frame_captured w \<longrightarrow>
            main np w = [GeneratedFEN fen_string, MissingKings fen_string])"
  using assms by (auto simp add: main_def split: py_error.splits)

theorem kingless_rejection_witness:
  "image_to_fen float32 (detections (world_of
       [det32 0 0 80 80 ''Chess_Board'', det32 40 70 50 80 ''White_King''] table_e)) ''w''
     = Inr ''8/8/8/8/8/8/8/4K3 w - - 0 1''
   \<and> CHR ''k'' \<notin> set ''8/8/8/8/8/8/8/4K3 w - - 0 1''
   \<and> (\<forall>f. EngineQueried f \<notin> set (main float32 (world_of
       [det32 0 0 80 80 ''Chess_Board'', det32 40 70 50 80 ''White_King''] table_e)))
   \<and> main float32 (world_of
       [det32 0 0 80 80 ''Chess_Board'', det32 40 70 50 80 ''White_King''] table_e)
       = [GeneratedFEN ''8/8/8/8/8/8/8/4K3 w - - 0 1'', MissingKings ''8/8/8/8/8/8/8/4K3 w - - 0 1'']"
proof -
  let ?w = "world_of [det32 0 0 80 80 ''Chess_Board'', det32 40 70 50 80 ''White_King''] table_e"
  have fen: "image_to_fen float32 (detections ?w) ''w'' = Inr ''8/8/8/8/8/8/8/4K3 w - - 0 1''"
    by (simp add: world_of_def eval_fen)
  have nok: "CHR ''k'' \<notin> set ''8/8/8/8/8/8/8/4K3 w - - 0 1''" by simp
  then have k: "CHR ''k'' \<notin> set ''8/8/8/8/8/8/8/4K3 w - - 0 1''
      \<or> CHR ''K'' \<notin> set ''8/8/8/8/8/8/8/4K3 w - - 0 1''" by (rule disjI1)
  have ex: "model_exists ?w \<and> frame_captured ?w" by (simp add: world_of_def)
  from kingless_rejection [OF fen k] ex fen nok show ?thesis by blast
qed

text \<open>With both kings detected the engine is queried, with the generated string.\<close>

lemma two_kings_query:
  "EngineQueried ''4k3/8/8/8/8/8/8/4K3 w - - 0 1'' \<in> set (main float32 (world_of two_kings table_e))"
proof -
  have "image_to_fen float32 two_kings ''w'' = Inr ''4k3/8/8/8/8/8/8/4K3 w - - 0 1''"
    by (simp add: two_kings_def eval_fen)
  then show ?thesis
    by (simp add: main_def engine_step_def world_of_def)
qed

end
